theory Spec2Isabelle
  imports Complex_Main "HOL-Library.Word"
begin

section \<open>Python values and exceptions\<close>

text \<open>
  The bridge of \<^verbatim>\<open>simple_twilio_example.py\<close> handles dynamically typed values: the
  frames of the telephony peer are whatever \<^verbatim>\<open>json.loads\<close> returns, and the messages of
  the speech service are dictionaries of such values. A dictionary is an association
  list read with \<open>map_of\<close>; all keys are strings. A \<^verbatim>\<open>str\<close> is a \<open>string\<close>: the
  bridge only concatenates strings, compares them and looks for the ASCII characters
  \<^verbatim>\<open>.\<close>, \<^verbatim>\<open>!\<close> and \<^verbatim>\<open>?\<close> in them, which reads the same on the UTF-8 bytes
  of a text as on its code points.
\<close>

type_synonym byte = "8 word"

datatype pyval =
    PNone
  | PBool bool
  | PInt int
  | PFloat real
  | PStr string
  | PList "pyval list"
  | PDict "(string \<times> pyval) list"

type_synonym pydict = "(string \<times> pyval) list"

text \<open>
  The exceptions the bridge can meet. All are subclasses of \<^verbatim>\<open>Exception\<close> except
  \<^verbatim>\<open>asyncio.CancelledError\<close>, which derives from \<^verbatim>\<open>BaseException\<close> only and so
  passes through every \<^verbatim>\<open>except Exception\<close> clause. \<open>JSONDecodeError\<close> is a subclass
  of \<^verbatim>\<open>ValueError\<close> in Python; here \<open>ValueError\<close> stands for a \<^verbatim>\<open>ValueError\<close> that is
  not a \<^verbatim>\<open>JSONDecodeError\<close>, so that \<^verbatim>\<open>except json.JSONDecodeError\<close> is the test
  \<open>e = JSONDecodeError\<close>. \<open>PeerError\<close> stands for whatever a call on one of the two peer
  connections raises (a closed socket, a protocol error, a value that cannot be
  serialised).
\<close>

datatype py_exc =
    KeyError
  | TypeError
  | AttributeError
  | ValueError
  | JSONDecodeError
  | RecursionError
  | BinasciiError
  | PeerError
  | CancelledError

fun is_Exception :: "py_exc \<Rightarrow> bool" where
  "is_Exception CancelledError = False"
| "is_Exception _ = True"

text \<open>Python's truth value of an object, as \<^verbatim>\<open>if x:\<close> and \<^verbatim>\<open>not x\<close> take it.\<close>

fun truthy :: "pyval \<Rightarrow> bool" where
  "truthy PNone = False"
| "truthy (PBool b) = b"
| "truthy (PInt i) = (i \<noteq> 0)"
| "truthy (PFloat r) = (r \<noteq> 0)"
| "truthy (PStr s) = (s \<noteq> [])"
| "truthy (PList xs) = (xs \<noteq> [])"
| "truthy (PDict d) = (d \<noteq> [])"

text \<open>\<^verbatim>\<open>d.get(k)\<close> on a dictionary: the value, or \<^verbatim>\<open>None\<close>.\<close>

definition dict_get :: "pydict \<Rightarrow> string \<Rightarrow> pyval" where
  "dict_get d k = (case map_of d k of None \<Rightarrow> PNone | Some v \<Rightarrow> v)"

text \<open>\<^verbatim>\<open>d[k]\<close> on a dictionary: the value, or \<^verbatim>\<open>KeyError\<close>.\<close>

definition dict_item :: "pydict \<Rightarrow> string \<Rightarrow> py_exc + pyval" where
  "dict_item d k = (case map_of d k of None \<Rightarrow> Inl KeyError | Some v \<Rightarrow> Inr v)"

text \<open>
  \<^verbatim>\<open>x[k]\<close> with a string key on any value: only a dictionary can be subscripted with
  a string; everything else raises \<^verbatim>\<open>TypeError\<close>.
\<close>

fun getitem :: "pyval \<Rightarrow> string \<Rightarrow> py_exc + pyval" where
  "getitem (PDict d) k = dict_item d k"
| "getitem _ k = Inl TypeError"

text \<open>
  \<^verbatim>\<open>x.get(k)\<close> on any value: only a dictionary has the method; everything else
  raises \<^verbatim>\<open>AttributeError\<close>.
\<close>

fun get_method :: "pyval \<Rightarrow> string \<Rightarrow> py_exc + pyval" where
  "get_method (PDict d) k = Inr (dict_get d k)"
| "get_method _ k = Inl AttributeError"

section \<open>What the two pumps do to the outside\<close>

text \<open>
  The log lines of the source, one constructor per format string:
  \<^item> \<open>Assistant b\<close>: \<^verbatim>\<open>logger.info(f"Assistant: {text_buffer}")\<close>
  \<^item> \<open>User v\<close>: \<^verbatim>\<open>logger.info(f"User: {message['text']}")\<close>
  \<^item> \<open>ResponseInterrupted\<close>: \<^verbatim>\<open>logger.info("Response interrupted")\<close>
  \<^item> \<open>TwilioConnectionEstablished\<close>, \<open>TwilioStreamStarted\<close>: the two
    \<^verbatim>\<open>logger.info\<close> lines of the telephony pump
  \<^item> \<open>FailedToDecodeJSON m\<close>: \<^verbatim>\<open>logger.error(f"Failed to decode JSON: {e} - Message: {message}")\<close>
  \<^item> \<open>ErrorReceivingMessage e\<close>: \<^verbatim>\<open>logger.error(f"Error receiving message: {e}")\<close>
  \<^item> \<open>ConnectionAccepted\<close>, \<open>WebSocketError e\<close>, \<open>ConnectionClosed\<close>: the three
    lines of the connection handler.
\<close>

datatype log_line =
    Assistant string
  | User pyval
  | ResponseInterrupted
  | TwilioConnectionEstablished
  | TwilioStreamStarted
  | FailedToDecodeJSON string
  | ErrorReceivingMessage py_exc
  | ConnectionAccepted
  | WebSocketError py_exc
  | ConnectionClosed

text \<open>
  An action is a call the code makes on the outside world, with its argument, recorded
  in the order of the calls: \<open>SendJson v\<close> is \<^verbatim>\<open>websocket.send_json(v)\<close> on the
  telephony socket, \<open>SendAudio bs\<close> is \<^verbatim>\<open>client.send_audio(...)\<close> on the speech-service
  client with the bytes of the array, \<open>LogInfo\<close> and \<open>LogError\<close> are the two logger
  calls. The others are the calls of the connection handler: \<open>Accept\<close> is
  \<^verbatim>\<open>websocket.accept()\<close>, \<open>ClientEnter\<close> and \<open>ClientExit\<close> are the entry into and the
  exit from \<^verbatim>\<open>async with PhonicSTSClient(...) as client\<close>, \<open>ClientSts\<close> is
  \<^verbatim>\<open>client.sts(...)\<close>, \<open>CreateTask t\<close> is \<^verbatim>\<open>asyncio.create_task\<close> for the pump
  \<open>t\<close>, and \<open>Cancel t\<close> is \<^verbatim>\<open>task.cancel()\<close> on it.
\<close>

datatype task = PhonicTask | TwilioTask

datatype action =
    SendJson pyval
  | SendAudio "byte list"
  | LogInfo log_line
  | LogError log_line
  | Accept
  | ClientEnter
  | ClientSts
  | CreateTask task
  | Cancel task
  | ClientExit

text \<open>
  A call on a peer connection can raise. What it does is the environment's choice, so
  every step of a pump takes the outcome of the one such call it can make: \<open>None\<close> when
  the call returns, \<open>Some e\<close> when it raises \<open>e\<close>.
\<close>

type_synonym io_outcome = "py_exc option"

section \<open>The speech-service pump: \<^verbatim>\<open>process_phonic_messages\<close>\<close>

text \<open>\<^verbatim>\<open>any(punc in text_buffer for punc in ".!?")\<close>\<close>

definition has_punc :: "string \<Rightarrow> bool" where
  "has_punc text_buffer = list_ex (\<lambda>punc. punc \<in> set text_buffer) ''.!?''"

text \<open>
  Lines 112 to 116: the walrus test on \<^verbatim>\<open>message.get("text")\<close>, the append and the
  flush. \<^verbatim>\<open>text_buffer += text\<close> raises \<^verbatim>\<open>TypeError\<close> when the truthy value is
  not a string. The result is the new buffer and the log lines, or the exception.
\<close>

definition process_text :: "string \<Rightarrow> pydict \<Rightarrow> py_exc + (string \<times> action list)" where
  "process_text text_buffer message =
     (let text = dict_get message ''text'' in
      if truthy text then
        (case text of
           PStr s \<Rightarrow>
             (let text_buffer' = text_buffer @ s in
              if has_punc text_buffer'
              then Inr ([], [LogInfo (Assistant text_buffer')])
              else Inr (text_buffer', []))
         | _ \<Rightarrow> Inl TypeError)
      else Inr (text_buffer, []))"

text \<open>The two envelopes built for the telephony peer (lines 120 to 124 and 138 to 141).\<close>

definition media_envelope :: "pyval \<Rightarrow> pyval \<Rightarrow> pyval" where
  "media_envelope sid audio =
     PDict [(''event'', PStr ''media''), (''streamSid'', sid),
            (''media'', PDict [(''payload'', audio)])]"

definition clear_envelope :: "pyval \<Rightarrow> pyval" where
  "clear_envelope sid = PDict [(''event'', PStr ''clear''), (''streamSid'', sid)]"

text \<open>
  One turn of the \<^verbatim>\<open>async for\<close> body, for one message. \<open>sid\<close> is
  \<^verbatim>\<open>shared_state["twilio_stream_sid"]\<close> as this turn reads it (the pump never writes
  it), \<open>io\<close> the outcome of the \<^verbatim>\<open>send_json\<close> call if the turn makes one. The result
  is the new \<^verbatim>\<open>text_buffer\<close>, the calls made, and the exception that ends the pump, if
  any.
\<close>

definition on_message ::
  "pyval \<Rightarrow> io_outcome \<Rightarrow> string \<Rightarrow> pydict \<Rightarrow> string \<times> action list \<times> py_exc option" where
  "on_message sid io text_buffer message =
     (let message_type = dict_get message ''type'' in
      if message_type = PStr ''audio_chunk'' then
        (case dict_item message ''audio'' of
           Inl e \<Rightarrow> (text_buffer, [], Some e)
         | Inr audio \<Rightarrow>
             (case process_text text_buffer message of
                Inl e \<Rightarrow> (text_buffer, [], Some e)
              | Inr (text_buffer', logs) \<Rightarrow>
                  if truthy sid
                  then (text_buffer', logs @ [SendJson (media_envelope sid audio)], io)
                  else (text_buffer', logs, None)))
      else if message_type = PStr ''audio_finished'' then
        (if text_buffer \<noteq> []
         then ([], [LogInfo (Assistant text_buffer)], None)
         else (text_buffer, [], None))
      else if message_type = PStr ''input_text'' then
        (case dict_item message ''text'' of
           Inl e \<Rightarrow> (text_buffer, [], Some e)
         | Inr text \<Rightarrow> (text_buffer, [LogInfo (User text)], None))
      else if message_type = PStr ''interrupted_response'' then
        (if truthy sid
         then (case io of
                 None \<Rightarrow> (text_buffer,
                           [SendJson (clear_envelope sid), LogInfo ResponseInterrupted], None)
               | Some e \<Rightarrow> (text_buffer, [SendJson (clear_envelope sid)], Some e))
         else (text_buffer, [LogInfo ResponseInterrupted], None))
      else (text_buffer, [], None))"

text \<open>
  What \<^verbatim>\<open>sts_stream\<close> hands to one turn of the loop: a message, the end of the stream,
  or an exception of the iterator. A message comes with the value of the shared stream
  id at that moment and with the outcome of the send the turn may make.
\<close>

datatype stream_item =
    Yield pydict pyval io_outcome
  | StreamEnd
  | StreamRaise py_exc

text \<open>
  How a task stands after a finite trace of its inputs: still waiting for the next one,
  returned, or ended by an exception.
\<close>

datatype status = Waiting | Returned | Raised py_exc

text \<open>
  The loop of \<^verbatim>\<open>process_phonic_messages\<close>, from a given \<^verbatim>\<open>text_buffer\<close> (the source
  starts it at \<^verbatim>\<open>""\<close>).
\<close>

fun phonic_loop :: "string \<Rightarrow> stream_item list \<Rightarrow> string \<times> action list \<times> status" where
  "phonic_loop text_buffer [] = (text_buffer, [], Waiting)"
| "phonic_loop text_buffer (StreamEnd # rest) = (text_buffer, [], Returned)"
| "phonic_loop text_buffer (StreamRaise e # rest) = (text_buffer, [], Raised e)"
| "phonic_loop text_buffer (Yield message sid io # rest) =
     (case on_message sid io text_buffer message of
        (text_buffer', acts, Some e) \<Rightarrow> (text_buffer', acts, Raised e)
      | (text_buffer', acts, None) \<Rightarrow>
          (case phonic_loop text_buffer' rest of
             (text_buffer'', acts', st) \<Rightarrow> (text_buffer'', acts @ acts', st)))"

definition process_phonic_messages :: "stream_item list \<Rightarrow> string \<times> action list \<times> status" where
  "process_phonic_messages sts_stream = phonic_loop [] sts_stream"

section \<open>The telephony pump: \<^verbatim>\<open>process_twilio_messages\<close>\<close>

text \<open>
  \<^verbatim>\<open>json.loads\<close> and \<^verbatim>\<open>base64.b64decode\<close> are library functions: the pump takes
  them as parameters. \<open>loads m\<close> is the value \<^verbatim>\<open>json.loads(m)\<close> returns, or the
  exception it raises: \<^verbatim>\<open>JSONDecodeError\<close> for a text that is not JSON, but also
  others (\<^verbatim>\<open>ValueError\<close> for an integer literal of more digits than the interpreter
  converts, \<^verbatim>\<open>RecursionError\<close> for too deep a nesting). \<open>b64decode v\<close> is the bytes, or
  the exception raised.
\<close>

type_synonym json_loads = "string \<Rightarrow> py_exc + pyval"
type_synonym b64_decode = "pyval \<Rightarrow> py_exc + byte list"

text \<open>\<^verbatim>\<open>x.get(k, default)\<close> on any value.\<close>

fun get_method_default :: "pyval \<Rightarrow> string \<Rightarrow> pyval \<Rightarrow> py_exc + pyval" where
  "get_method_default (PDict d) k dflt = Inr (case map_of d k of None \<Rightarrow> dflt | Some v \<Rightarrow> v)"
| "get_method_default _ k dflt = Inl AttributeError"

text \<open>\<^verbatim>\<open>data.get("media", {}).get("track")\<close>\<close>

definition media_track :: "pyval \<Rightarrow> py_exc + pyval" where
  "media_track data =
     (case get_method_default data ''media'' (PDict []) of
        Inl e \<Rightarrow> Inl e
      | Inr media \<Rightarrow> get_method media ''track'')"

text \<open>
  Lines 171 to 182, the branch of an inbound media frame. The stream id is stored
  before the payload is looked at, so it stays stored when a later line raises.
  \<^verbatim>\<open>np.frombuffer(audio_bytes, dtype=np.uint8)\<close> is an array with one element for each
  byte: \<open>SendAudio\<close> carries the bytes themselves.
\<close>

definition inbound_media ::
  "b64_decode \<Rightarrow> io_outcome \<Rightarrow> pyval \<Rightarrow> pyval \<Rightarrow> pyval \<times> action list \<times> py_exc option" where
  "inbound_media b64decode io sid data =
     (case (if \<not> truthy sid then getitem data ''streamSid'' else Inr sid) of
        Inl e \<Rightarrow> (sid, [], Some e)
      | Inr sid' \<Rightarrow>
          (case getitem data ''media'' of
             Inl e \<Rightarrow> (sid', [], Some e)
           | Inr media \<Rightarrow>
               (case getitem media ''payload'' of
                  Inl e \<Rightarrow> (sid', [], Some e)
                | Inr payload \<Rightarrow>
                    (case b64decode payload of
                       Inl e \<Rightarrow> (sid', [], Some e)
                     | Inr audio_bytes \<Rightarrow> (sid', [SendAudio audio_bytes], io)))))"

text \<open>
  Lines 161 to 182, the handling of one decoded frame. \<open>sid\<close> is
  \<^verbatim>\<open>shared_state["twilio_stream_sid"]\<close> before the frame, \<open>io\<close> the outcome of
  \<^verbatim>\<open>client.send_audio\<close> if it is called. None of these lines is inside a \<^verbatim>\<open>try\<close>:
  an exception here ends the pump.
\<close>

definition on_frame ::
  "b64_decode \<Rightarrow> io_outcome \<Rightarrow> pyval \<Rightarrow> pyval \<Rightarrow> pyval \<times> action list \<times> py_exc option" where
  "on_frame b64decode io sid data =
     (case getitem data ''event'' of
        Inl e \<Rightarrow> (sid, [], Some e)
      | Inr event \<Rightarrow>
          if event = PStr ''connected'' then (sid, [LogInfo TwilioConnectionEstablished], None)
          else if event = PStr ''start'' then (sid, [LogInfo TwilioStreamStarted], None)
          else if event = PStr ''media'' then
            (case media_track data of
               Inl e \<Rightarrow> (sid, [], Some e)
             | Inr track \<Rightarrow>
                 if track = PStr ''inbound'' then inbound_media b64decode io sid data
                 else (sid, [], None))
          else (sid, [], None))"

text \<open>
  What \<^verbatim>\<open>await websocket.receive_text()\<close> gives to one turn of the loop: a text
  frame (with the outcome of the \<^verbatim>\<open>send_audio\<close> call the turn may make), or an
  exception.
\<close>

datatype socket_item =
    Frame string io_outcome
  | ReceiveRaise py_exc

text \<open>
  Lines 157 to 159, the outer \<^verbatim>\<open>except Exception\<close> of the loop: an exception that
  is an \<^verbatim>\<open>Exception\<close> is logged and the loop is left (\<^verbatim>\<open>break\<close>), so the function
  returns with the stream id as it is; a cancellation is not caught.
\<close>

definition receive_failed :: "pyval \<Rightarrow> py_exc \<Rightarrow> pyval \<times> action list \<times> status" where
  "receive_failed sid e =
     (if is_Exception e then (sid, [LogError (ErrorReceivingMessage e)], Returned)
      else (sid, [], Raised e))"

text \<open>
  The \<^verbatim>\<open>while True\<close> loop. Both the receive call and \<^verbatim>\<open>json.loads\<close> are inside the
  outer \<^verbatim>\<open>try\<close>. A \<^verbatim>\<open>JSONDecodeError\<close> of \<^verbatim>\<open>json.loads\<close> is caught by the inner
  \<^verbatim>\<open>except\<close>: the frame is logged and the loop goes on (\<^verbatim>\<open>continue\<close>). Every other
  exception, of the receive call or of \<^verbatim>\<open>json.loads\<close>, goes to the outer
  \<^verbatim>\<open>except\<close>. The trace is finite: when it is used up the pump is waiting in
  \<^verbatim>\<open>receive_text\<close>.
\<close>

fun process_twilio_messages ::
  "json_loads \<Rightarrow> b64_decode \<Rightarrow> pyval \<Rightarrow> socket_item list \<Rightarrow> pyval \<times> action list \<times> status" where
  "process_twilio_messages loads b64decode sid [] = (sid, [], Waiting)"
| "process_twilio_messages loads b64decode sid (ReceiveRaise e # rest) = receive_failed sid e"
| "process_twilio_messages loads b64decode sid (Frame message io # rest) =
     (case loads message of
        Inl e \<Rightarrow>
          if e = JSONDecodeError
          then (case process_twilio_messages loads b64decode sid rest of
                  (sid', acts, st) \<Rightarrow> (sid', LogError (FailedToDecodeJSON message) # acts, st))
          else receive_failed sid e
      | Inr data \<Rightarrow>
          (case on_frame b64decode io sid data of
             (sid', acts, Some e) \<Rightarrow> (sid', acts, Raised e)
           | (sid', acts, None) \<Rightarrow>
               (case process_twilio_messages loads b64decode sid' rest of
                  (sid'', acts', st) \<Rightarrow> (sid'', acts @ acts', st))))"

section \<open>A base64 decoder for concrete runs\<close>

text \<open>
  The theorems below hold for every decoder. Where a concrete run needs one, this is
  \<^verbatim>\<open>base64.b64decode\<close> with its default \<^verbatim>\<open>validate=False\<close>, as CPython's
  \<^verbatim>\<open>binascii.a2b_base64\<close> computes it: characters outside the alphabet are skipped, a
  padding character ends the decoding once it completes a group that holds at least
  two digits, and text that ends inside a group is an error. A string with a
  character outside ASCII is a \<^verbatim>\<open>ValueError\<close>, a value that is not a string a
  \<^verbatim>\<open>TypeError\<close>.
\<close>

definition b64_alphabet :: string where
  "b64_alphabet = ''ABCDEFGHIJKLMNOPQRSTUVWXYZabcdefghijklmnopqrstuvwxyz0123456789+/''"

fun index_of :: "'a \<Rightarrow> 'a list \<Rightarrow> nat option" where
  "index_of x [] = None"
| "index_of x (y # ys) = (if x = y then Some 0 else map_option Suc (index_of x ys))"

text \<open>A decoded byte in front of what the rest of the text decodes to.\<close>

definition emit :: "nat \<Rightarrow> py_exc + byte list \<Rightarrow> py_exc + byte list" where
  "emit n r = (case r of Inl e \<Rightarrow> Inl e | Inr bs \<Rightarrow> Inr (of_nat n # bs))"

text \<open>
  The decoding loop, with its three variables: the position in the group of four
  digits, the bits left over from the last digit, and the count of padding characters
  seen since the last digit.
\<close>

fun a2b_base64 :: "nat \<Rightarrow> nat \<Rightarrow> nat \<Rightarrow> string \<Rightarrow> py_exc + byte list" where
  "a2b_base64 quad_pos leftchar pads [] =
     (if quad_pos = 0 then Inr [] else Inl BinasciiError)"
| "a2b_base64 quad_pos leftchar pads (c # cs) =
     (if c = CHR ''='' then
        (if 2 \<le> quad_pos \<and> 4 \<le> quad_pos + (pads + 1) then Inr []
         else a2b_base64 quad_pos leftchar (if 2 \<le> quad_pos then pads + 1 else pads) cs)
      else
        (case index_of c b64_alphabet of
           None \<Rightarrow> a2b_base64 quad_pos leftchar pads cs
         | Some v \<Rightarrow>
             if quad_pos = 0 then a2b_base64 1 v 0 cs
             else if quad_pos = 1
               then emit (leftchar * 4 + v div 16) (a2b_base64 2 (v mod 16) 0 cs)
             else if quad_pos = 2
               then emit (leftchar * 16 + v div 4) (a2b_base64 3 (v mod 4) 0 cs)
             else emit (leftchar * 64 + v) (a2b_base64 0 0 0 cs)))"

fun base64_b64decode :: b64_decode where
  "base64_b64decode (PStr s) =
     (if list_ex (\<lambda>c. (128::nat) \<le> of_char c) s then Inl ValueError
      else a2b_base64 0 0 0 s)"
| "base64_b64decode _ = Inl TypeError"

section \<open>The connection handler: \<^verbatim>\<open>websocket_endpoint\<close>\<close>










section \<open>Reading a trace of actions\<close>

text \<open>The transcripts logged as completed assistant utterances, in order.\<close>

fun utterances :: "action list \<Rightarrow> string list" where
  "utterances [] = []"
| "utterances (LogInfo (Assistant b) # acts) = b # utterances acts"
| "utterances (a # acts) = utterances acts"

text \<open>The envelopes handed to \<^verbatim>\<open>websocket.send_json\<close>, in order.\<close>

fun envelopes :: "action list \<Rightarrow> pyval list" where
  "envelopes [] = []"
| "envelopes (SendJson v # acts) = v # envelopes acts"
| "envelopes (a # acts) = envelopes acts"


text \<open>
  A receive outcome that the telephony pump logs as a frame it cannot decode, and the
  log line it writes for it.
\<close>

definition decode_fails :: "json_loads \<Rightarrow> socket_item \<Rightarrow> bool" where
  "decode_fails loads item =
     (case item of Frame m io \<Rightarrow> loads m = Inl JSONDecodeError | ReceiveRaise e \<Rightarrow> False)"

fun is_decode_log :: "action \<Rightarrow> bool" where
  "is_decode_log (LogError (FailedToDecodeJSON m)) = True"
| "is_decode_log _ = False"

text \<open>
  A service message of type \<^verbatim>\<open>audio_chunk\<close> with the given \<^verbatim>\<open>audio\<close> value and the
  given \<^verbatim>\<open>message.get("text")\<close> (\<open>PNone\<close> when the message has no text).
\<close>

definition is_audio_chunk :: "pydict \<Rightarrow> pyval \<Rightarrow> pyval \<Rightarrow> bool" where
  "is_audio_chunk message audio text \<longleftrightarrow>
     dict_get message ''type'' = PStr ''audio_chunk'' \<and>
     dict_item message ''audio'' = Inr audio \<and>
     dict_get message ''text'' = text"

text \<open>
  A decoded telephony frame with \<^verbatim>\<open>event == "media"\<close>, \<^verbatim>\<open>media.track == "inbound"\<close>,
  the given \<^verbatim>\<open>streamSid\<close> and the given \<^verbatim>\<open>media.payload\<close>.
\<close>

definition is_inbound_media :: "pyval \<Rightarrow> pyval \<Rightarrow> pyval \<Rightarrow> bool" where
  "is_inbound_media data stream_sid payload \<longleftrightarrow>
     getitem data ''event'' = Inr (PStr ''media'') \<and>
     media_track data = Inr (PStr ''inbound'') \<and>
     getitem data ''streamSid'' = Inr stream_sid \<and>
     (case getitem data ''media'' of
        Inl e \<Rightarrow> False
      | Inr media \<Rightarrow> getitem media ''payload'' = Inr payload)"

section \<open>Frames for concrete runs\<close>

text \<open>
  The theorems below hold for every parser. Where a concrete run needs one, it is
  \<^verbatim>\<open>json.loads\<close> cut down to the frames named here. \<open>frame_long_int\<close> is an integer
  literal of 4301 digits: it is JSON, but \<^verbatim>\<open>json.loads\<close> raises a plain
  \<^verbatim>\<open>ValueError\<close> on it, the interpreter converting at most 4300 digits. The frames
  of the table are returned with their values, and every other text is rejected with
  \<^verbatim>\<open>JSONDecodeError\<close>, as \<open>frame_garbled\<close>, which is not JSON.
\<close>

definition frame_connected :: string where
  \<open>frame_connected = ''{"event":"connected"}''\<close>

definition frame_no_sid :: string where
  \<open>frame_no_sid = ''{"event":"media","streamSid":"","media":{"track":"inbound","payload":"YQ=="}}''\<close>

definition frame_MZ18 :: string where
  \<open>frame_MZ18 = ''{"event":"media","streamSid":"MZ18","media":{"track":"inbound","payload":"YQ=="}}''\<close>

definition frame_MZ99 :: string where
  \<open>frame_MZ99 = ''{"event":"media","streamSid":"MZ99","media":{"track":"inbound","payload":"aGk="}}''\<close>

definition frame_garbled :: string where
  \<open>frame_garbled = ''{"event":"media",''\<close>

definition frame_long_int :: string where
  "frame_long_int = replicate 4301 (CHR ''1'')"

definition media_frame :: "string \<Rightarrow> string \<Rightarrow> string \<Rightarrow> pyval" where
  "media_frame stream_sid track payload =
     PDict [(''event'', PStr ''media''), (''streamSid'', PStr stream_sid),
            (''media'', PDict [(''track'', PStr track), (''payload'', PStr payload)])]"

definition loads_frames :: json_loads where
  "loads_frames m =
     (if m = frame_long_int then Inl ValueError
      else case map_of [(frame_connected, PDict [(''event'', PStr ''connected'')]),
                        (frame_no_sid, media_frame [] ''inbound'' ''YQ==''),
                        (frame_MZ18, media_frame ''MZ18'' ''inbound'' ''YQ==''),
                        (frame_MZ99, media_frame ''MZ99'' ''inbound'' ''aGk='')] m of
             None \<Rightarrow> Inl JSONDecodeError
           | Some data \<Rightarrow> Inr data)"

section \<open>Properties of the speech-service pump\<close>

lemma has_punc_iff:
  "has_punc s \<longleftrightarrow> CHR ''.'' \<in> set s \<or> CHR ''!'' \<in> set s \<or> CHR ''?'' \<in> set s"
  by (simp add: has_punc_def)

lemma utterances_append: "utterances (xs @ ys) = utterances xs @ utterances ys"
  by (induction xs rule: utterances.induct) simp_all

lemma envelopes_append: "envelopes (xs @ ys) = envelopes xs @ envelopes ys"
  by (induction xs rule: envelopes.induct) simp_all

lemma process_text_str:
  assumes "dict_get m ''text'' = PStr t" "t \<noteq> [] \<or> \<not> has_punc b"
  shows "process_text b m =
           Inr (if has_punc (b @ t) then ([], [LogInfo (Assistant (b @ t))]) else (b @ t, []))"
  using assms by (cases "t = []") (simp_all add: process_text_def Let_def)

lemma on_message_audio_chunk:
  assumes "is_audio_chunk m a (PStr t)" "t \<noteq> [] \<or> \<not> has_punc b"
  shows "on_message sid io b m =
           (if has_punc (b @ t) then [] else b @ t,
            (if has_punc (b @ t) then [LogInfo (Assistant (b @ t))] else []) @
            (if truthy sid then [SendJson (media_envelope sid a)] else []),
            if truthy sid then io else None)"
proof -
  from assms(1) have ty: "dict_get m ''type'' = PStr ''audio_chunk''"
    and au: "dict_item m ''audio'' = Inr a" and tx: "dict_get m ''text'' = PStr t"
    by (simp_all add: is_audio_chunk_def)
  show ?thesis
    by (simp add: on_message_def Let_def ty au process_text_str [OF tx assms(2)])
qed

lemma on_message_audio_finished:
  assumes "dict_get m ''type'' = PStr ''audio_finished''"
  shows "on_message sid io b m =
           (if b \<noteq> [] then ([], [LogInfo (Assistant b)], None) else (b, [], None))"
  using assms by (simp add: on_message_def Let_def)

lemma process_text_no_punc:
  assumes "\<not> has_punc b" "process_text b m = Inr (b', logs)"
  shows "\<not> has_punc b'"
  using assms
  by (auto simp: process_text_def Let_def has_punc_def split: if_splits pyval.splits)

lemma on_message_no_punc:
  assumes "\<not> has_punc b"
  shows "\<not> has_punc (fst (on_message sid io b m))"
  using assms process_text_no_punc [of b m]
  by (auto simp: on_message_def Let_def has_punc_def split: sum.splits option.splits prod.splits)

lemma phonic_loop_no_punc:
  "\<not> has_punc b \<Longrightarrow> \<not> has_punc (fst (phonic_loop b items))"
proof (induction b items rule: phonic_loop.induct)
  case (4 b message sid io rest)
  obtain b' acts x where om: "on_message sid io b message = (b', acts, x)"
    by (cases "on_message sid io b message") auto
  have nb: "\<not> has_punc b'"
    using on_message_no_punc [OF 4(2), of sid io message] om by simp
  show ?case
  proof (cases x)
    case None
    with 4(1) [OF om [symmetric] _ None] nb om show ?thesis
      by (auto split: prod.splits)
  next
    case (Some e)
    with nb om show ?thesis by simp
  qed
qed simp_all

text \<open>
  Claim C4. The three fragments \<^verbatim>\<open>"Hello"\<close>, \<^verbatim>\<open>" there"\<close>, \<^verbatim>\<open>"."\<close>, delivered as the
  text of three successive \<^verbatim>\<open>audio_chunk\<close> messages to a pump whose \<^verbatim>\<open>text_buffer\<close>
  is empty, give exactly one completed-utterance log line, for the transcript
  \<^verbatim>\<open>Hello there.\<close>, and leave the buffer empty. In general a fragment is appended to
  the buffer, and the buffer is logged and cleared exactly when it then holds one of
  \<^verbatim>\<open>.\<close>, \<^verbatim>\<open>!\<close>, \<^verbatim>\<open>?\<close>. (The sends of the three turns return; the stream id may have
  any value at each turn.)
\<close>

theorem sentence_flush:
  assumes "is_audio_chunk m1 a1 (PStr ''Hello'')"
    and "is_audio_chunk m2 a2 (PStr '' there'')"
    and "is_audio_chunk m3 a3 (PStr ''.'')"
  shows "(case process_phonic_messages [Yield m1 s1 None, Yield m2 s2 None, Yield m3 s3 None] of
            (b, acts, st) \<Rightarrow> b = [] \<and> utterances acts = [''Hello there.''] \<and> st = Waiting) \<and>
         (\<forall>m a t sid io b.
            is_audio_chunk m a (PStr t) \<and> (t \<noteq> [] \<or> \<not> has_punc b) \<longrightarrow>
              fst (on_message sid io b m) = (if has_punc (b @ t) then [] else b @ t) \<and>
              utterances (fst (snd (on_message sid io b m))) =
                (if has_punc (b @ t) then [b @ t] else [])) \<and>
         (\<forall>s. has_punc s \<longleftrightarrow> CHR ''.'' \<in> set s \<or> CHR ''!'' \<in> set s \<or> CHR ''?'' \<in> set s)"
proof (intro conjI allI impI)
  have e1: "on_message s1 None [] m1 = (''Hello'', if truthy s1 then [SendJson (media_envelope s1 a1)] else [], None)"
    using on_message_audio_chunk [OF assms(1), of "[]" s1 None] by (simp add: has_punc_def)
  have e2: "on_message s2 None ''Hello'' m2 =
              (''Hello there'', if truthy s2 then [SendJson (media_envelope s2 a2)] else [], None)"
    using on_message_audio_chunk [OF assms(2), of "''Hello''" s2 None] by (simp add: has_punc_def)
  have e3: "on_message s3 None ''Hello there'' m3 =
              ([], LogInfo (Assistant ''Hello there.'') #
                   (if truthy s3 then [SendJson (media_envelope s3 a3)] else []), None)"
    using on_message_audio_chunk [OF assms(3), of "''Hello there''" s3 None] by (simp add: has_punc_def)
  show "case process_phonic_messages [Yield m1 s1 None, Yield m2 s2 None, Yield m3 s3 None] of
            (b, acts, st) \<Rightarrow> b = [] \<and> utterances acts = [''Hello there.''] \<and> st = Waiting"
    by (simp add: process_phonic_messages_def e1 e2 e3 utterances_append)
next
  fix m a t sid io b
  assume h: "is_audio_chunk m a (PStr t) \<and> (t \<noteq> [] \<or> \<not> has_punc b)"
  then have eq: "on_message sid io b m =
           (if has_punc (b @ t) then [] else b @ t,
            (if has_punc (b @ t) then [LogInfo (Assistant (b @ t))] else []) @
            (if truthy sid then [SendJson (media_envelope sid a)] else []),
            if truthy sid then io else None)"
    using on_message_audio_chunk [of m a t b sid io] by blast
  show "fst (on_message sid io b m) = (if has_punc (b @ t) then [] else b @ t)"
    by (simp add: eq)
  show "utterances (fst (snd (on_message sid io b m))) = (if has_punc (b @ t) then [b @ t] else [])"
    by (simp add: eq utterances_append)
next
  fix s show "has_punc s \<longleftrightarrow> CHR ''.'' \<in> set s \<or> CHR ''!'' \<in> set s \<or> CHR ''?'' \<in> set s"
    by (rule has_punc_iff)
qed

theorem sentence_flush_witness:
  "is_audio_chunk [(''type'', PStr ''audio_chunk''), (''audio'', PStr ''f39/''), (''text'', PStr ''Hello'')]
     (PStr ''f39/'') (PStr ''Hello'') \<and>
   is_audio_chunk [(''type'', PStr ''audio_chunk''), (''audio'', PStr ''fn5+''), (''text'', PStr '' there'')]
     (PStr ''fn5+'') (PStr '' there'') \<and>
   is_audio_chunk [(''type'', PStr ''audio_chunk''), (''text'', PStr ''.''), (''audio'', PStr ''/w=='')]
     (PStr ''/w=='') (PStr ''.'') \<and>
   (case process_phonic_messages
      [Yield [(''type'', PStr ''audio_chunk''), (''audio'', PStr ''f39/''), (''text'', PStr ''Hello'')] PNone None,
       Yield [(''type'', PStr ''audio_chunk''), (''audio'', PStr ''fn5+''), (''text'', PStr '' there'')] (PStr ''MZ18'') None,
       Yield [(''type'', PStr ''audio_chunk''), (''text'', PStr ''.''), (''audio'', PStr ''/w=='')] (PStr ''MZ18'') None] of
      (b, acts, st) \<Rightarrow> b = [] \<and> utterances acts = [''Hello there.''] \<and> st = Waiting) \<and>
   fst (on_message (PStr ''MZ18'') None ''Hello there''
          [(''type'', PStr ''audio_chunk''), (''text'', PStr ''.''), (''audio'', PStr ''/w=='')]) = []"
proof -
  have h1: "is_audio_chunk [(''type'', PStr ''audio_chunk''), (''audio'', PStr ''f39/''), (''text'', PStr ''Hello'')]
     (PStr ''f39/'') (PStr ''Hello'')"
    by (simp add: is_audio_chunk_def dict_get_def dict_item_def)
  have h2: "is_audio_chunk [(''type'', PStr ''audio_chunk''), (''audio'', PStr ''fn5+''), (''text'', PStr '' there'')]
     (PStr ''fn5+'') (PStr '' there'')"
    by (simp add: is_audio_chunk_def dict_get_def dict_item_def)
  have h3: "is_audio_chunk [(''type'', PStr ''audio_chunk''), (''text'', PStr ''.''), (''audio'', PStr ''/w=='')]
     (PStr ''/w=='') (PStr ''.'')"
    by (simp add: is_audio_chunk_def dict_get_def dict_item_def)
  note c = sentence_flush [OF h1 h2 h3, of PNone "PStr ''MZ18''" "PStr ''MZ18''", THEN conjunct1]
  have "''.'' \<noteq> [] \<or> \<not> has_punc ''Hello there''" by simp
  with h3 sentence_flush [OF h1 h2 h3, THEN conjunct2, THEN conjunct1]
  have g: "fst (on_message (PStr ''MZ18'') None ''Hello there''
          [(''type'', PStr ''audio_chunk''), (''text'', PStr ''.''), (''audio'', PStr ''/w=='')]) =
        (if has_punc (''Hello there'' @ ''.'') then [] else ''Hello there'' @ ''.'')"
    by blast
  have g': "fst (on_message (PStr ''MZ18'') None ''Hello there''
          [(''type'', PStr ''audio_chunk''), (''text'', PStr ''.''), (''audio'', PStr ''/w=='')]) = []"
    using g by (simp add: has_punc_def)
  show ?thesis by (intro conjI h1 h2 h3 c g')
qed

text \<open>
  Claim C5. The fragments \<^verbatim>\<open>"Wait"\<close> and \<^verbatim>\<open>" for it"\<close>, which hold no terminating
  punctuation, followed at once by an \<^verbatim>\<open>audio_finished\<close> message, give exactly one
  flush (log and clear of \<^verbatim>\<open>text_buffer\<close>): none after the two fragments, one at the
  \<^verbatim>\<open>audio_finished\<close> message, for the transcript \<^verbatim>\<open>Wait for it\<close>. In general
  \<^verbatim>\<open>audio_finished\<close> flushes the buffer exactly when it is not empty.
\<close>

theorem finish_flush:
  assumes "is_audio_chunk m1 a1 (PStr ''Wait'')"
    and "is_audio_chunk m2 a2 (PStr '' for it'')"
    and "dict_get m3 ''type'' = PStr ''audio_finished''"
  shows "(case process_phonic_messages [Yield m1 s1 None, Yield m2 s2 None] of
            (b, acts, st) \<Rightarrow> b = ''Wait for it'' \<and> utterances acts = []) \<and>
         (case process_phonic_messages [Yield m1 s1 None, Yield m2 s2 None, Yield m3 s3 io3] of
            (b, acts, st) \<Rightarrow> b = [] \<and> utterances acts = [''Wait for it''] \<and> st = Waiting) \<and>
         (\<forall>m sid io b.
            dict_get m ''type'' = PStr ''audio_finished'' \<longrightarrow>
              on_message sid io b m =
                (if b \<noteq> [] then ([], [LogInfo (Assistant b)], None) else (b, [], None)))"
proof (intro conjI allI impI)
  have e1: "on_message s1 None [] m1 =
              (''Wait'', if truthy s1 then [SendJson (media_envelope s1 a1)] else [], None)"
    using on_message_audio_chunk [OF assms(1), of "[]" s1 None] by (simp add: has_punc_def)
  have e2: "on_message s2 None ''Wait'' m2 =
              (''Wait for it'', if truthy s2 then [SendJson (media_envelope s2 a2)] else [], None)"
    using on_message_audio_chunk [OF assms(2), of "''Wait''" s2 None] by (simp add: has_punc_def)
  have e3: "on_message s3 io3 ''Wait for it'' m3 = ([], [LogInfo (Assistant ''Wait for it'')], None)"
    using on_message_audio_finished [OF assms(3), of s3 io3 "''Wait for it''"] by simp
  show "case process_phonic_messages [Yield m1 s1 None, Yield m2 s2 None] of
            (b, acts, st) \<Rightarrow> b = ''Wait for it'' \<and> utterances acts = []"
    by (simp add: process_phonic_messages_def e1 e2 utterances_append)
  show "case process_phonic_messages [Yield m1 s1 None, Yield m2 s2 None, Yield m3 s3 io3] of
            (b, acts, st) \<Rightarrow> b = [] \<and> utterances acts = [''Wait for it''] \<and> st = Waiting"
    by (simp add: process_phonic_messages_def e1 e2 e3 utterances_append)
next
  fix m sid io b
  assume "dict_get m ''type'' = PStr ''audio_finished''"
  then show "on_message sid io b m =
                (if b \<noteq> [] then ([], [LogInfo (Assistant b)], None) else (b, [], None))"
    by (rule on_message_audio_finished)
qed

theorem finish_flush_witness:
  "is_audio_chunk [(''type'', PStr ''audio_chunk''), (''audio'', PStr ''f39/''), (''text'', PStr ''Wait'')]
     (PStr ''f39/'') (PStr ''Wait'') \<and>
   is_audio_chunk [(''type'', PStr ''audio_chunk''), (''audio'', PStr ''fn5+''), (''text'', PStr '' for it'')]
     (PStr ''fn5+'') (PStr '' for it'') \<and>
   dict_get [(''type'', PStr ''audio_finished'')] ''type'' = PStr ''audio_finished'' \<and>
   (case process_phonic_messages
      [Yield [(''type'', PStr ''audio_chunk''), (''audio'', PStr ''f39/''), (''text'', PStr ''Wait'')] (PStr ''MZ18'') None,
       Yield [(''type'', PStr ''audio_chunk''), (''audio'', PStr ''fn5+''), (''text'', PStr '' for it'')] (PStr ''MZ18'') None,
       Yield [(''type'', PStr ''audio_finished'')] (PStr ''MZ18'') None] of
      (b, acts, st) \<Rightarrow> b = [] \<and> utterances acts = [''Wait for it''] \<and> st = Waiting) \<and>
   on_message (PStr ''MZ18'') None [] [(''type'', PStr ''audio_finished'')] = ([], [], None)"
proof -
  have h1: "is_audio_chunk [(''type'', PStr ''audio_chunk''), (''audio'', PStr ''f39/''), (''text'', PStr ''Wait'')]
     (PStr ''f39/'') (PStr ''Wait'')"
    by (simp add: is_audio_chunk_def dict_get_def dict_item_def)
  have h2: "is_audio_chunk [(''type'', PStr ''audio_chunk''), (''audio'', PStr ''fn5+''), (''text'', PStr '' for it'')]
     (PStr ''fn5+'') (PStr '' for it'')"
    by (simp add: is_audio_chunk_def dict_get_def dict_item_def)
  have h3: "dict_get [(''type'', PStr ''audio_finished'')] ''type'' = PStr ''audio_finished''"
    by (simp add: dict_get_def)
  note c = finish_flush [OF h1 h2 h3, of "PStr ''MZ18''" "PStr ''MZ18''" "PStr ''MZ18''" None,
      THEN conjunct2, THEN conjunct1]
  from h3 finish_flush [OF h1 h2 h3, THEN conjunct2, THEN conjunct2]
  have "on_message (PStr ''MZ18'') None [] [(''type'', PStr ''audio_finished'')] =
          (if ([]::string) \<noteq> [] then ([], [LogInfo (Assistant [])], None) else ([], [], None))"
    by blast
  then have g: "on_message (PStr ''MZ18'') None [] [(''type'', PStr ''audio_finished'')] = ([], [], None)"
    by simp
  show ?thesis by (intro conjI h1 h2 h3 c g)
qed

text \<open>
  Claim C10. Invariant of the speech-service pump: started with the empty buffer, after
  any sequence of stream items (messages of any type with any fields, under any value of
  the stream id and any outcome of the sends, the end of the stream or an exception of
  the iterator), \<^verbatim>\<open>text_buffer\<close> holds none of the characters \<^verbatim>\<open>.\<close>, \<^verbatim>\<open>!\<close>, \<^verbatim>\<open>?\<close>.
\<close>

theorem text_buffer_never_keeps_punctuation:
  "CHR ''.'' \<notin> set (fst (process_phonic_messages sts_stream)) \<and>
   CHR ''!'' \<notin> set (fst (process_phonic_messages sts_stream)) \<and>
   CHR ''?'' \<notin> set (fst (process_phonic_messages sts_stream))"
proof -
  have "\<not> has_punc []" by (simp add: has_punc_def)
  then have "\<not> has_punc (fst (phonic_loop [] sts_stream))" by (rule phonic_loop_no_punc)
  then show ?thesis by (simp add: process_phonic_messages_def has_punc_iff)
qed

theorem text_buffer_never_keeps_punctuation_witness:
  "fst (process_phonic_messages
      [Yield [(''type'', PStr ''audio_chunk''), (''audio'', PStr ''f39/''), (''text'', PStr ''Hi! How'')] PNone None,
       Yield [(''type'', PStr ''input_text''), (''text'', PStr ''Stop.'')] PNone None,
       Yield [(''type'', PStr ''audio_chunk''), (''audio'', PStr ''fn5+''), (''text'', PStr '' are'')] (PStr ''MZ18'') None,
       Yield [(''type'', PStr ''interrupted_response'')] (PStr ''MZ18'') None]) = '' are'' \<and>
   CHR ''.'' \<notin> set (fst (process_phonic_messages
      [Yield [(''type'', PStr ''audio_chunk''), (''audio'', PStr ''f39/''), (''text'', PStr ''Hi! How'')] PNone None,
       Yield [(''type'', PStr ''input_text''), (''text'', PStr ''Stop.'')] PNone None,
       Yield [(''type'', PStr ''audio_chunk''), (''audio'', PStr ''fn5+''), (''text'', PStr '' are'')] (PStr ''MZ18'') None,
       Yield [(''type'', PStr ''interrupted_response'')] (PStr ''MZ18'') None]))"
proof -
  have "fst (process_phonic_messages
      [Yield [(''type'', PStr ''audio_chunk''), (''audio'', PStr ''f39/''), (''text'', PStr ''Hi! How'')] PNone None,
       Yield [(''type'', PStr ''input_text''), (''text'', PStr ''Stop.'')] PNone None,
       Yield [(''type'', PStr ''audio_chunk''), (''audio'', PStr ''fn5+''), (''text'', PStr '' are'')] (PStr ''MZ18'') None,
       Yield [(''type'', PStr ''interrupted_response'')] (PStr ''MZ18'') None]) = '' are''"
    by (simp add: process_phonic_messages_def on_message_def process_text_def dict_get_def
        dict_item_def has_punc_def Let_def)
  with text_buffer_never_keeps_punctuation [THEN conjunct1] show ?thesis by blast
qed

text \<open>
  Claim C6. An \<^verbatim>\<open>interrupted_response\<close> message processed while the stream id is set
  makes exactly one call of \<^verbatim>\<open>send_json\<close>, with the envelope
  \<^verbatim>\<open>{"event": "clear", "streamSid": <the stream id>}\<close>, and leaves \<^verbatim>\<open>text_buffer\<close>
  as it was; the turn ends as the send does, and when the send returns the loop goes on
  from the same buffer. The pump has no way to write the shared stream id: a turn takes
  it as an argument and returns only the buffer.
\<close>

theorem interrupted_response_clear:
  assumes "dict_get m ''type'' = PStr ''interrupted_response''" and "truthy sid"
  shows "fst (on_message sid io b m) = b \<and>
         envelopes (fst (snd (on_message sid io b m))) =
           [PDict [(''event'', PStr ''clear''), (''streamSid'', sid)]] \<and>
         snd (snd (on_message sid io b m)) = io \<and>
         phonic_loop b (Yield m sid None # rest) =
           (case phonic_loop b rest of
              (b', acts, st) \<Rightarrow>
                (b', SendJson (PDict [(''event'', PStr ''clear''), (''streamSid'', sid)]) #
                     LogInfo ResponseInterrupted # acts, st))"
  using assms
  by (cases io) (simp_all add: on_message_def Let_def clear_envelope_def split: prod.splits)

theorem interrupted_response_clear_witness:
  "dict_get [(''type'', PStr ''interrupted_response'')] ''type'' = PStr ''interrupted_response'' \<and>
   truthy (PStr ''MZ18'') \<and>
   fst (on_message (PStr ''MZ18'') None ''Wait for'' [(''type'', PStr ''interrupted_response'')]) = ''Wait for'' \<and>
   envelopes (fst (snd (on_message (PStr ''MZ18'') None ''Wait for'' [(''type'', PStr ''interrupted_response'')]))) =
     [PDict [(''event'', PStr ''clear''), (''streamSid'', PStr ''MZ18'')]]"
proof -
  have h1: "dict_get [(''type'', PStr ''interrupted_response'')] ''type'' = PStr ''interrupted_response''"
    by (simp add: dict_get_def)
  have h2: "truthy (PStr ''MZ18'')" by simp
  from interrupted_response_clear [OF h1 h2, of None "''Wait for''" "[]"] h1 h2
  show ?thesis by simp
qed

text \<open>
  Claim C2. An \<^verbatim>\<open>audio_chunk\<close> message processed while the stream id is unset (more
  generally, not truthy) makes no call of \<^verbatim>\<open>send_json\<close>, and its audio is kept
  nowhere: the whole run of the pump from there on, over any later items, is the same
  whatever audio the dropped chunk carried.
\<close>

theorem audio_dropped_without_stream_id:
  assumes "\<not> truthy sid" and "is_audio_chunk m a t"
  shows "envelopes (fst (snd (on_message sid io b m))) = [] \<and>
         (\<forall>m' a' io'. is_audio_chunk m' a' t \<longrightarrow>
            phonic_loop b (Yield m sid io # rest) = phonic_loop b (Yield m' sid io' # rest))"
proof (intro conjI allI impI)
  from assms(2) have ty: "dict_get m ''type'' = PStr ''audio_chunk''"
    and au: "dict_item m ''audio'' = Inr a" and tx: "dict_get m ''text'' = t"
    by (simp_all add: is_audio_chunk_def)
  have pt: "\<And>m'. dict_get m' ''text'' = t \<Longrightarrow> process_text b m' = process_text b m"
    by (simp add: process_text_def tx)
  have om: "\<And>m' a' io'. is_audio_chunk m' a' t \<Longrightarrow>
      on_message sid io' b m' =
        (case process_text b m of Inl e \<Rightarrow> (b, [], Some e) | Inr (b', logs) \<Rightarrow> (b', logs, None))"
    using assms(1) by (simp add: on_message_def Let_def is_audio_chunk_def pt split: sum.splits)
  have logs: "\<And>b' l. process_text b m = Inr (b', l) \<Longrightarrow> envelopes l = []"
    by (auto simp: process_text_def Let_def split: if_splits pyval.splits)
  show "envelopes (fst (snd (on_message sid io b m))) = []"
    using logs by (simp add: om [OF assms(2)] split: sum.splits)
  fix m' a' io' assume "is_audio_chunk m' a' t"
  then show "phonic_loop b (Yield m sid io # rest) = phonic_loop b (Yield m' sid io' # rest)"
    by (simp add: om [OF assms(2)] om)
qed

theorem audio_dropped_without_stream_id_witness:
  "\<not> truthy PNone \<and>
   is_audio_chunk [(''type'', PStr ''audio_chunk''), (''audio'', PStr ''f39/'')] (PStr ''f39/'') PNone \<and>
   envelopes (fst (snd (on_message PNone None []
      [(''type'', PStr ''audio_chunk''), (''audio'', PStr ''f39/'')]))) = []"
proof -
  have h1: "\<not> truthy PNone" by simp
  have h2: "is_audio_chunk [(''type'', PStr ''audio_chunk''), (''audio'', PStr ''f39/'')] (PStr ''f39/'') PNone"
    by (simp add: is_audio_chunk_def dict_get_def dict_item_def)
  note c = audio_dropped_without_stream_id [OF h1 h2, of None "[]" "[]", THEN conjunct1]
  show ?thesis by (intro conjI h1 h2 c)
qed

section \<open>Properties of the telephony pump\<close>

lemma on_frame_keeps_truthy:
  "truthy sid \<Longrightarrow> fst (on_frame b64decode io sid data) = sid"
  by (simp add: on_frame_def inbound_media_def split: sum.splits)

lemma twilio_append:
  "process_twilio_messages loads b64decode sid (xs @ ys) =
     (case process_twilio_messages loads b64decode sid xs of
        (s, acts, st) \<Rightarrow>
          if st = Waiting
          then (case process_twilio_messages loads b64decode s ys of
                  (s', acts', st') \<Rightarrow> (s', acts @ acts', st'))
          else (s, acts, st))"
proof (induction xs arbitrary: sid)
  case Nil
  show ?case by (simp split: prod.splits)
next
  case (Cons x xs)
  show ?case
  proof (cases x)
    case (ReceiveRaise e)
    then show ?thesis by (simp add: receive_failed_def)
  next
    case (Frame m io)
    show ?thesis
    proof (cases "loads m")
      case (Inl e)
      with Frame show ?thesis
        by (simp add: Cons.IH receive_failed_def split: prod.splits)
    next
      case (Inr data)
      obtain s1 a1 x1 where f: "on_frame b64decode io sid data = (s1, a1, x1)"
        by (cases "on_frame b64decode io sid data") auto
      show ?thesis
        by (cases x1) (simp_all add: Frame Inr f Cons.IH split: prod.splits)
    qed
  qed
qed

lemma twilio_snoc:
  assumes "process_twilio_messages loads b64decode sid0 frames = (sid, acts, Waiting)"
  shows "process_twilio_messages loads b64decode sid0 (frames @ ys) =
           (case process_twilio_messages loads b64decode sid ys of
              (s', acts', st) \<Rightarrow> (s', acts @ acts', st))"
  by (simp add: twilio_append assms)

lemma phonic_append:
  "phonic_loop b (xs @ ys) =
     (case phonic_loop b xs of
        (b1, acts, st) \<Rightarrow>
          if st = Waiting
          then (case phonic_loop b1 ys of (b2, acts', st') \<Rightarrow> (b2, acts @ acts', st'))
          else (b1, acts, st))"
proof (induction xs arbitrary: b)
  case Nil
  show ?case by (simp split: prod.splits)
next
  case (Cons x xs)
  show ?case
  proof (cases x)
    case (Yield message sid io)
    obtain b1 a1 x1 where f: "on_message sid io b message = (b1, a1, x1)"
      by (cases "on_message sid io b message") auto
    show ?thesis
      by (cases x1) (simp_all add: Yield f Cons.IH split: prod.splits)
  qed simp_all
qed

lemma twilio_keeps_truthy:
  "truthy sid \<Longrightarrow> fst (process_twilio_messages loads b64decode sid items) = sid"
proof (induction items arbitrary: sid)
  case Nil
  show ?case by simp
next
  case (Cons x xs)
  show ?case
  proof (cases x)
    case (ReceiveRaise e)
    then show ?thesis by (simp add: receive_failed_def)
  next
    case (Frame m io)
    show ?thesis
    proof (cases "loads m")
      case (Inl e)
      with Frame Cons.IH [OF Cons.prems] show ?thesis
        by (auto simp: receive_failed_def split: prod.splits)
    next
      case (Inr data)
      obtain s1 a1 x1 where f: "on_frame b64decode io sid data = (s1, a1, x1)"
        by (cases "on_frame b64decode io sid data") auto
      have s: "s1 = sid" using on_frame_keeps_truthy [OF Cons.prems, of b64decode io data] f by simp
      show ?thesis
        using Cons.IH [OF Cons.prems] 
        by (cases x1) (auto simp: Frame Inr f s split: prod.splits)
    qed
  qed
qed

lemma on_frame_inbound_media:
  assumes "is_inbound_media data v p"
  shows "on_frame b64decode io sid data =
           (case b64decode p of
              Inl e \<Rightarrow> (if truthy sid then sid else v, [], Some e)
            | Inr bs \<Rightarrow> (if truthy sid then sid else v, [SendAudio bs], io))"
  using assms
  by (auto simp: is_inbound_media_def on_frame_def inbound_media_def split: sum.splits)

lemma on_frame_no_decode_log:
  "filter (\<lambda>a. \<not> is_decode_log a) (fst (snd (on_frame b64decode io sid data))) =
     fst (snd (on_frame b64decode io sid data))"
  by (simp add: on_frame_def inbound_media_def split: sum.splits)

lemma twilio_skip_filter:
  "process_twilio_messages loads b64decode sid (filter (\<lambda>it. \<not> decode_fails loads it) items) =
     (case process_twilio_messages loads b64decode sid items of
        (s, acts, st) \<Rightarrow> (s, filter (\<lambda>a. \<not> is_decode_log a) acts, st))"
proof (induction items arbitrary: sid)
  case Nil
  show ?case by simp
next
  case (Cons x xs)
  show ?case
  proof (cases x)
    case (ReceiveRaise e)
    have d: "\<not> decode_fails loads (ReceiveRaise e)" by (simp add: decode_fails_def)
    show ?thesis by (simp add: d ReceiveRaise receive_failed_def)
  next
    case (Frame m io)
    show ?thesis
    proof (cases "loads m")
      case (Inl e)
      have d: "decode_fails loads (Frame m io) \<longleftrightarrow> e = JSONDecodeError"
        by (simp add: decode_fails_def Inl)
      show ?thesis
        by (cases "e = JSONDecodeError")
          (simp_all add: d Frame Inl Cons.IH receive_failed_def split: prod.splits)
    next
      case (Inr data)
      have d: "\<not> decode_fails loads (Frame m io)"
        by (simp add: decode_fails_def Inr)
      obtain s1 a1 x1 where f: "on_frame b64decode io sid data = (s1, a1, x1)"
        by (cases "on_frame b64decode io sid data") auto
      have nl: "filter (\<lambda>a. \<not> is_decode_log a) a1 = a1"
        using on_frame_no_decode_log [of b64decode io sid data] f by simp
      show ?thesis
        by (cases x1) (simp_all add: d Frame Inr f nl Cons.IH split: prod.splits)
    qed
  qed
qed

lemma not_long_int: "m \<noteq> [] \<Longrightarrow> hd m \<noteq> CHR ''1'' \<Longrightarrow> m \<noteq> frame_long_int"
  by (auto simp: frame_long_int_def)

lemma loads_frames_simps:
  "loads_frames frame_connected = Inr (PDict [(''event'', PStr ''connected'')])"
  "loads_frames frame_no_sid = Inr (media_frame [] ''inbound'' ''YQ=='')"
  "loads_frames frame_MZ18 = Inr (media_frame ''MZ18'' ''inbound'' ''YQ=='')"
  "loads_frames frame_MZ99 = Inr (media_frame ''MZ99'' ''inbound'' ''aGk='')"
  "loads_frames frame_garbled = Inl JSONDecodeError"
  "loads_frames frame_long_int = Inl ValueError"
  using not_long_int [of frame_connected] not_long_int [of frame_no_sid]
    not_long_int [of frame_MZ18] not_long_int [of frame_MZ99] not_long_int [of frame_garbled]
  by (simp_all add: loads_frames_def frame_connected_def frame_no_sid_def frame_MZ18_def
      frame_MZ99_def frame_garbled_def)

lemma media_frame_inbound:
  "is_inbound_media (media_frame v ''inbound'' p) (PStr v) (PStr p)"
  by (simp add: is_inbound_media_def media_frame_def media_track_def dict_item_def dict_get_def)

lemma base64_b64decode_examples:
  "base64_b64decode (PStr ''YQ=='') = Inr [97]"
  "base64_b64decode (PStr ''aGk='') = Inr [104, 105]"
  "base64_b64decode (PStr (''YQ=='' @ [CHR 0x0A])) = Inr [97]"
  by (simp_all add: b64_alphabet_def emit_def)

text \<open>
  Claim C1, as stated, fails. The pump takes the stream id for unset whenever it is not
  truthy (\<^verbatim>\<open>if not shared_state["twilio_stream_sid"]\<close>). A first inbound media frame
  whose \<^verbatim>\<open>streamSid\<close> is the empty string is recorded as such, and the next inbound
  media frame overwrites it: after the two frames the recorded id is \<^verbatim>\<open>MZ18\<close>, not
  the \<^verbatim>\<open>streamSid\<close> of the first frame.
\<close>

theorem stream_id_overwritten_counterexample:
  "getitem (media_frame [] ''inbound'' ''YQ=='') ''streamSid'' = Inr (PStr []) \<and>
   fst (process_twilio_messages loads_frames base64_b64decode PNone [Frame frame_no_sid None]) = PStr [] \<and>
   fst (process_twilio_messages loads_frames base64_b64decode PNone
          [Frame frame_no_sid None, Frame frame_MZ18 None]) = PStr ''MZ18'' \<and>
   fst (process_twilio_messages loads_frames base64_b64decode PNone
          [Frame frame_no_sid None, Frame frame_MZ18 None]) \<noteq> PStr []"
  by (simp add: loads_frames_simps on_frame_inbound_media [OF media_frame_inbound]
      base64_b64decode_examples del: base64_b64decode.simps)
    (simp add: media_frame_def dict_item_def)

text \<open>
  Claim C1, amended. When an inbound media frame (\<^verbatim>\<open>event == "media"\<close>,
  \<^verbatim>\<open>media.track == "inbound"\<close>) with a truthy \<^verbatim>\<open>streamSid\<close> is processed while no
  truthy stream id is recorded, the recorded stream id is that frame's \<^verbatim>\<open>streamSid\<close>
  after the frame and after every sequence of later receive outcomes, whatever frames
  they bring and however the pump ends; a truthy stream id, once recorded, never
  changes.
\<close>

theorem stream_id_first_writer_wins:
  assumes "loads m = Inr data"
    and "getitem data ''event'' = Inr (PStr ''media'')"
    and "media_track data = Inr (PStr ''inbound'')"
    and "getitem data ''streamSid'' = Inr v"
    and "truthy v" and "\<not> truthy sid0"
  shows "fst (process_twilio_messages loads b64decode sid0 (Frame m io # rest)) = v \<and>
         (\<forall>items. fst (process_twilio_messages loads b64decode v items) = v)"
proof (intro conjI allI)
  have "fst (on_frame b64decode io sid0 data) = v"
    using assms(2,3,4,6) by (simp add: on_frame_def inbound_media_def split: sum.splits)
  then obtain acts x where of: "on_frame b64decode io sid0 data = (v, acts, x)"
    by (cases "on_frame b64decode io sid0 data") auto
  show "fst (process_twilio_messages loads b64decode sid0 (Frame m io # rest)) = v"
    using twilio_keeps_truthy [OF assms(5), of loads b64decode rest]
    by (cases x) (auto simp: assms(1) of split: prod.splits)
  fix items show "fst (process_twilio_messages loads b64decode v items) = v"
    using assms(5) by (rule twilio_keeps_truthy)
qed

theorem stream_id_first_writer_wins_witness:
  "loads_frames frame_MZ18 = Inr (media_frame ''MZ18'' ''inbound'' ''YQ=='') \<and>
   truthy (PStr ''MZ18'') \<and> \<not> truthy PNone \<and>
   fst (process_twilio_messages loads_frames base64_b64decode PNone
          [Frame frame_MZ18 None, Frame frame_MZ99 None, Frame frame_no_sid None]) = PStr ''MZ18''"
proof -
  have h1: "loads_frames frame_MZ18 = Inr (media_frame ''MZ18'' ''inbound'' ''YQ=='')"
    by (rule loads_frames_simps)
  have h2: "getitem (media_frame ''MZ18'' ''inbound'' ''YQ=='') ''event'' = Inr (PStr ''media'')"
    and h3: "media_track (media_frame ''MZ18'' ''inbound'' ''YQ=='') = Inr (PStr ''inbound'')"
    and h4: "getitem (media_frame ''MZ18'' ''inbound'' ''YQ=='') ''streamSid'' = Inr (PStr ''MZ18'')"
    using media_frame_inbound [of "''MZ18''" "''YQ==''"] by (simp_all add: is_inbound_media_def)
  have h5: "truthy (PStr ''MZ18'')" and h6: "\<not> truthy PNone" by simp_all
  note c = stream_id_first_writer_wins [where loads = loads_frames and m = frame_MZ18
      and b64decode = base64_b64decode and io = None
      and rest = "[Frame frame_MZ99 None, Frame frame_no_sid None]",
      OF h1 h2 h3 h4 h5 h6, THEN conjunct1]
  show ?thesis by (intro conjI h1 h5 h6 c)
qed

text \<open>
  Claim C7, as stated, fails. The inner \<^verbatim>\<open>except\<close> of the receive loop catches
  \<^verbatim>\<open>json.JSONDecodeError\<close> only. A frame that is an integer literal of 4301 digits
  is received without error, but \<^verbatim>\<open>json.loads\<close> raises a plain \<^verbatim>\<open>ValueError\<close> on
  it: the frame is not skipped, the outer \<^verbatim>\<open>except Exception\<close> logs it as an error
  of receiving and leaves the loop, and the inbound media frame that follows is never
  handled.
\<close>

theorem json_failure_ends_loop_counterexample:
  "loads_frames frame_long_int = Inl ValueError \<and>
   loads_frames frame_MZ18 = Inr (media_frame ''MZ18'' ''inbound'' ''YQ=='') \<and>
   process_twilio_messages loads_frames base64_b64decode PNone
     [Frame frame_long_int None, Frame frame_MZ18 None] =
     (PNone, [LogError (ErrorReceivingMessage ValueError)], Returned)"
  by (simp add: loads_frames_simps receive_failed_def)

text \<open>
  Claim C7, amended. At every turn of the receive loop of the telephony pump, that is
  after any frames that leave the pump waiting with some stream id and some calls made,
  exactly one of three things happens to the next receive outcome.
  A frame on which \<^verbatim>\<open>json.loads\<close> raises \<^verbatim>\<open>JSONDecodeError\<close> adds one error log
  line and nothing else, and the loop goes on over the later frames from the same stream
  id. An exception of the receive call, and equally any other exception of
  \<^verbatim>\<open>json.loads\<close>, ends the loop and the task at once, with the stream id as it was
  and the later frames unread: it is logged and the pump returns when it is an
  \<^verbatim>\<open>Exception\<close>, and it propagates when it is a cancellation. A frame that
  \<^verbatim>\<open>json.loads\<close> decodes goes to the frame handling, which ends the pump with its
  exception if it raises and lets the loop go on otherwise.
  Over a whole run, leaving out every frame that fails with \<^verbatim>\<open>JSONDecodeError\<close>
  changes nothing but the log: the stream id, the way the pump ends and all other
  calls are the same.
\<close>

theorem receive_loop_outcomes:
  assumes "process_twilio_messages loads b64decode sid0 frames = (sid, acts, Waiting)"
  shows "process_twilio_messages loads b64decode sid0 (frames @ item # rest) =
           (case item of
              ReceiveRaise e \<Rightarrow>
                (sid, acts @ (if is_Exception e then [LogError (ErrorReceivingMessage e)] else []),
                 if is_Exception e then Returned else Raised e)
            | Frame m io \<Rightarrow>
                (case loads m of
                   Inl e \<Rightarrow>
                     if e = JSONDecodeError
                     then (case process_twilio_messages loads b64decode sid rest of
                             (sid', acts', st) \<Rightarrow>
                               (sid', acts @ LogError (FailedToDecodeJSON m) # acts', st))
                     else (sid,
                           acts @ (if is_Exception e
                                   then [LogError (ErrorReceivingMessage e)] else []),
                           if is_Exception e then Returned else Raised e)
                 | Inr data \<Rightarrow>
                     (case on_frame b64decode io sid data of
                        (sid', acts', Some e) \<Rightarrow> (sid', acts @ acts', Raised e)
                      | (sid', acts', None) \<Rightarrow>
                          (case process_twilio_messages loads b64decode sid' rest of
                             (sid'', acts'', st) \<Rightarrow> (sid'', acts @ acts' @ acts'', st))))) \<and>
         process_twilio_messages loads b64decode sid0 (frames @ rest) =
           (case process_twilio_messages loads b64decode sid rest of
              (sid', acts', st) \<Rightarrow> (sid', acts @ acts', st)) \<and>
         (\<forall>items.
            process_twilio_messages loads b64decode sid0
              (filter (\<lambda>it. \<not> decode_fails loads it) items) =
            (case process_twilio_messages loads b64decode sid0 items of
               (s, a, st) \<Rightarrow> (s, filter (\<lambda>x. \<not> is_decode_log x) a, st)))"
proof (intro conjI allI)
  show "process_twilio_messages loads b64decode sid0 (frames @ rest) =
           (case process_twilio_messages loads b64decode sid rest of
              (sid', acts', st) \<Rightarrow> (sid', acts @ acts', st))"
    by (rule twilio_snoc [OF assms])
next
  fix items
  show "process_twilio_messages loads b64decode sid0
              (filter (\<lambda>it. \<not> decode_fails loads it) items) =
            (case process_twilio_messages loads b64decode sid0 items of
               (s, a, st) \<Rightarrow> (s, filter (\<lambda>x. \<not> is_decode_log x) a, st))"
    by (rule twilio_skip_filter)
next
  show "process_twilio_messages loads b64decode sid0 (frames @ item # rest) =
           (case item of
              ReceiveRaise e \<Rightarrow>
                (sid, acts @ (if is_Exception e then [LogError (ErrorReceivingMessage e)] else []),
                 if is_Exception e then Returned else Raised e)
            | Frame m io \<Rightarrow>
                (case loads m of
                   Inl e \<Rightarrow>
                     if e = JSONDecodeError
                     then (case process_twilio_messages loads b64decode sid rest of
                             (sid', acts', st) \<Rightarrow>
                               (sid', acts @ LogError (FailedToDecodeJSON m) # acts', st))
                     else (sid,
                           acts @ (if is_Exception e
                                   then [LogError (ErrorReceivingMessage e)] else []),
                           if is_Exception e then Returned else Raised e)
                 | Inr data \<Rightarrow>
                     (case on_frame b64decode io sid data of
                        (sid', acts', Some e) \<Rightarrow> (sid', acts @ acts', Raised e)
                      | (sid', acts', None) \<Rightarrow>
                          (case process_twilio_messages loads b64decode sid' rest of
                             (sid'', acts'', st) \<Rightarrow> (sid'', acts @ acts' @ acts'', st)))))"
  proof (cases item)
    case (ReceiveRaise e)
    then show ?thesis
      by (simp add: twilio_snoc [OF assms] receive_failed_def)
  next
    case (Frame m io)
    show ?thesis
    proof (cases "loads m")
      case (Inl e)
      then show ?thesis
        by (simp add: Frame twilio_snoc [OF assms] receive_failed_def split: prod.splits)
    next
      case (Inr data)
      obtain s1 a1 x1 where f: "on_frame b64decode io sid data = (s1, a1, x1)"
        by (cases "on_frame b64decode io sid data") auto
      show ?thesis
        by (cases x1) (simp_all add: Frame Inr f twilio_snoc [OF assms] split: prod.splits)
    qed
  qed
qed

theorem receive_loop_outcomes_witness:
  "process_twilio_messages loads_frames base64_b64decode PNone [Frame frame_connected None] =
     (PNone, [LogInfo TwilioConnectionEstablished], Waiting) \<and>
   loads_frames frame_garbled = Inl JSONDecodeError \<and>
   process_twilio_messages loads_frames base64_b64decode PNone
     ([Frame frame_connected None] @ Frame frame_garbled None #
      [Frame frame_MZ18 None, ReceiveRaise PeerError, Frame frame_MZ99 None]) =
     (PStr ''MZ18'',
      [LogInfo TwilioConnectionEstablished, LogError (FailedToDecodeJSON frame_garbled),
       SendAudio [97], LogError (ErrorReceivingMessage PeerError)],
      Returned)"
proof -
  have h: "process_twilio_messages loads_frames base64_b64decode PNone [Frame frame_connected None] =
     (PNone, [LogInfo TwilioConnectionEstablished], Waiting)"
    by (simp add: loads_frames_simps on_frame_def dict_item_def)
  have g: "loads_frames frame_garbled = Inl JSONDecodeError" by (rule loads_frames_simps)
  have m: "process_twilio_messages loads_frames base64_b64decode PNone
             [Frame frame_MZ18 None, ReceiveRaise PeerError, Frame frame_MZ99 None] =
           (PStr ''MZ18'', [SendAudio [97], LogError (ErrorReceivingMessage PeerError)], Returned)"
    by (simp add: loads_frames_simps on_frame_inbound_media [OF media_frame_inbound]
        base64_b64decode_examples receive_failed_def del: base64_b64decode.simps)
  have c: "process_twilio_messages loads_frames base64_b64decode PNone
     ([Frame frame_connected None] @ Frame frame_garbled None #
      [Frame frame_MZ18 None, ReceiveRaise PeerError, Frame frame_MZ99 None]) =
     (PStr ''MZ18'',
      [LogInfo TwilioConnectionEstablished, LogError (FailedToDecodeJSON frame_garbled),
       SendAudio [97], LogError (ErrorReceivingMessage PeerError)],
      Returned)"
    using receive_loop_outcomes [OF h, of "Frame frame_garbled None"
        "[Frame frame_MZ18 None, ReceiveRaise PeerError, Frame frame_MZ99 None]",
        THEN conjunct1]
    by (simp add: g m del: process_twilio_messages.simps)
  show ?thesis by (intro conjI h g c)
qed

text \<open>
  Claim C3. Let the telephony pump have handled any frames and be waiting, and let the
  next frame be an inbound media frame whose payload the decoder accepts. Then
  \<^verbatim>\<open>process_twilio_messages\<close> makes one more call, \<^verbatim>\<open>send_audio\<close> with exactly the
  bytes \<^verbatim>\<open>b64decode\<close> returns for \<^verbatim>\<open>media.payload\<close>, and the recorded stream id is
  the earlier one if that was truthy and the frame's \<^verbatim>\<open>streamSid\<close> otherwise. Let the
  speech-service pump have handled any messages and be waiting, let the recorded stream
  id be truthy, and let the next message be an \<^verbatim>\<open>audio_chunk\<close> that carries the same
  bytes (its \<^verbatim>\<open>audio\<close> decodes to them; its text, if any, is a string). Then
  \<^verbatim>\<open>process_phonic_messages\<close> makes one more \<^verbatim>\<open>send_json\<close> call, with the envelope
  \<^verbatim>\<open>{"event": "media", "streamSid": <recorded id>, "media": {"payload": <audio>}}\<close>,
  whose payload is the chunk's \<^verbatim>\<open>audio\<close>, base64 text of the submitted bytes. Each
  pump then waits for its next input, or ends with the exception of its send.
\<close>

theorem audio_round_trip:
  assumes "process_twilio_messages loads b64decode sid0 frames = (sid, tacts, Waiting)"
    and "loads m = Inr data" and "is_inbound_media data v p" and "b64decode p = Inr bs"
    and "process_phonic_messages items = (b, pacts, Waiting)"
    and "is_audio_chunk message a t" and "\<not> truthy t \<or> (\<exists>s. t = PStr s)"
    and "b64decode a = Inr bs"
    and "recorded = fst (process_twilio_messages loads b64decode sid0 (frames @ [Frame m io]))"
    and "truthy recorded"
  shows "process_twilio_messages loads b64decode sid0 (frames @ [Frame m io]) =
           (if truthy sid then sid else v, tacts @ [SendAudio bs],
            case io of None \<Rightarrow> Waiting | Some e \<Rightarrow> Raised e) \<and>
         envelopes (fst (snd (process_phonic_messages (items @ [Yield message recorded io'])))) =
           envelopes pacts @
           [PDict [(''event'', PStr ''media''), (''streamSid'', recorded),
                   (''media'', PDict [(''payload'', a)])]] \<and>
         snd (snd (process_phonic_messages (items @ [Yield message recorded io']))) =
           (case io' of None \<Rightarrow> Waiting | Some e \<Rightarrow> Raised e)"
proof -
  have f: "\<And>x. on_frame b64decode x sid data =
              (if truthy sid then sid else v, [SendAudio bs], x)"
    using on_frame_inbound_media [OF assms(3), of b64decode _ sid] assms(4) by simp
  have tw: "process_twilio_messages loads b64decode sid0 (frames @ [Frame m io]) =
           (if truthy sid then sid else v, tacts @ [SendAudio bs],
            case io of None \<Rightarrow> Waiting | Some e \<Rightarrow> Raised e)"
    by (cases io) (simp_all add: twilio_snoc [OF assms(1)] assms(2) f)
  from assms(6) have ty: "dict_get message ''type'' = PStr ''audio_chunk''"
    and au: "dict_item message ''audio'' = Inr a" and tx: "dict_get message ''text'' = t"
    by (simp_all add: is_audio_chunk_def)
  have "\<exists>b' logs. process_text b message = Inr (b', logs) \<and> envelopes logs = []"
    using assms(7) by (auto simp: process_text_def Let_def tx)
  then obtain b' logs where pt: "process_text b message = Inr (b', logs)"
    and le: "envelopes logs = []"
    by blast
  have om: "\<And>x. on_message recorded x b message =
              (b', logs @ [SendJson (media_envelope recorded a)], x)"
    using assms(10) by (simp add: on_message_def Let_def ty au pt)
  have pl: "phonic_loop [] items = (b, pacts, Waiting)"
    using assms(5) by (simp add: process_phonic_messages_def)
  have ph: "process_phonic_messages (items @ [Yield message recorded io']) =
              (b', pacts @ logs @ [SendJson (media_envelope recorded a)],
               case io' of None \<Rightarrow> Waiting | Some e \<Rightarrow> Raised e)"
    by (cases io') (simp_all add: process_phonic_messages_def phonic_append pl om)
  show ?thesis
    by (simp add: tw ph envelopes_append le media_envelope_def)
qed

theorem audio_round_trip_witness:
  "process_twilio_messages loads_frames base64_b64decode PNone [Frame frame_connected None] =
     (PNone, [LogInfo TwilioConnectionEstablished], Waiting) \<and>
   loads_frames frame_MZ18 = Inr (media_frame ''MZ18'' ''inbound'' ''YQ=='') \<and>
   base64_b64decode (PStr ''YQ=='') = Inr [97] \<and>
   base64_b64decode (PStr (''YQ=='' @ [CHR 0x0A])) = Inr [97] \<and>
   process_twilio_messages loads_frames base64_b64decode PNone
     ([Frame frame_connected None] @ [Frame frame_MZ18 None]) =
     (PStr ''MZ18'', [LogInfo TwilioConnectionEstablished] @ [SendAudio [97]], Waiting) \<and>
   envelopes (fst (snd (process_phonic_messages
     ([Yield [(''type'', PStr ''input_text''), (''text'', PStr ''Hi'')] PNone None] @
      [Yield [(''type'', PStr ''audio_chunk''), (''audio'', PStr (''YQ=='' @ [CHR 0x0A]))]
         (PStr ''MZ18'') None])))) =
     [PDict [(''event'', PStr ''media''), (''streamSid'', PStr ''MZ18''),
             (''media'', PDict [(''payload'', PStr (''YQ=='' @ [CHR 0x0A]))])]]"
proof -
  have h1: "process_twilio_messages loads_frames base64_b64decode PNone [Frame frame_connected None] =
     (PNone, [LogInfo TwilioConnectionEstablished], Waiting)"
    by (simp add: loads_frames_simps on_frame_def dict_item_def)
  have h2: "loads_frames frame_MZ18 = Inr (media_frame ''MZ18'' ''inbound'' ''YQ=='')"
    by (rule loads_frames_simps)
  have h3: "is_inbound_media (media_frame ''MZ18'' ''inbound'' ''YQ=='') (PStr ''MZ18'') (PStr ''YQ=='')"
    by (rule media_frame_inbound)
  have h4: "base64_b64decode (PStr ''YQ=='') = Inr [97]" by (rule base64_b64decode_examples)
  have h5: "process_phonic_messages
      [Yield [(''type'', PStr ''input_text''), (''text'', PStr ''Hi'')] PNone None] =
      ([], [LogInfo (User (PStr ''Hi''))], Waiting)"
    by (simp add: process_phonic_messages_def on_message_def dict_get_def dict_item_def Let_def)
  have h6: "is_audio_chunk [(''type'', PStr ''audio_chunk''), (''audio'', PStr (''YQ=='' @ [CHR 0x0A]))]
      (PStr (''YQ=='' @ [CHR 0x0A])) PNone"
    by (simp add: is_audio_chunk_def dict_get_def dict_item_def)
  have h7: "\<not> truthy PNone \<or> (\<exists>s. PNone = PStr s)" by simp
  have h8: "base64_b64decode (PStr (''YQ=='' @ [CHR 0x0A])) = Inr [97]"
    by (rule base64_b64decode_examples)
  have r: "fst (process_twilio_messages loads_frames base64_b64decode PNone
             ([Frame frame_connected None] @ [Frame frame_MZ18 None])) = PStr ''MZ18''"
    by (simp add: loads_frames_simps on_frame_inbound_media [OF media_frame_inbound] h4
        on_frame_def [of _ _ _ "PDict [(''event'', PStr ''connected'')]"] dict_item_def
        del: base64_b64decode.simps)
  have h9: "PStr ''MZ18'' = fst (process_twilio_messages loads_frames base64_b64decode PNone
             ([Frame frame_connected None] @ [Frame frame_MZ18 None]))"
    by (simp only: r)
  have h10: "truthy (PStr ''MZ18'')" by simp
  note t = audio_round_trip [where loads = loads_frames and m = frame_MZ18 and io = None
      and io' = None, OF h1 h2 h3 h4 h5 h6 h7 h8 h9 h10]
  from t have c1: "process_twilio_messages loads_frames base64_b64decode PNone
     ([Frame frame_connected None] @ [Frame frame_MZ18 None]) =
     (PStr ''MZ18'', [LogInfo TwilioConnectionEstablished] @ [SendAudio [97]], Waiting)"
    by simp
  from t have c2: "envelopes (fst (snd (process_phonic_messages
     ([Yield [(''type'', PStr ''input_text''), (''text'', PStr ''Hi'')] PNone None] @
      [Yield [(''type'', PStr ''audio_chunk''), (''audio'', PStr (''YQ=='' @ [CHR 0x0A]))]
         (PStr ''MZ18'') None])))) =
     [PDict [(''event'', PStr ''media''), (''streamSid'', PStr ''MZ18''),
             (''media'', PDict [(''payload'', PStr (''YQ=='' @ [CHR 0x0A]))])]]"
    by simp
  show ?thesis by (intro conjI h1 h2 h4 h8 c1 c2)
qed

section \<open>Properties of the connection handler\<close>


















end
